theory Spec2Isabelle
  imports Main "HOL-Library.Word" "HOL-Library.Sublist"
begin

section \<open>JavaScript strings\<close>

text \<open>
  A JavaScript string is a sequence of UTF-16 code units. \<open>slice\<close>, \<open>trim\<close> and a
  regular expression without the \<open>u\<close> flag all work on code units, so the model
  does too. \<open>js\<close> turns an ASCII literal of the source into such a sequence.
\<close>

type_synonym code_unit = "16 word"
type_synonym jsstring = "code_unit list"

definition js :: "string \<Rightarrow> jsstring" where
  "js cs = map of_char cs"

text \<open>\<open>WhiteSpace\<close> and \<open>LineTerminator\<close> of ECMAScript; \<open>trim\<close> removes both.\<close>

definition isWhiteSpace :: "code_unit \<Rightarrow> bool" where
  "isWhiteSpace c \<longleftrightarrow>
     c \<in> {0x09, 0x0B, 0x0C, 0x20, 0xA0, 0x1680, 0x202F, 0x205F, 0x3000, 0xFEFF}
     \<or> (0x2000 \<le> c \<and> c \<le> 0x200A)"

definition isLineTerminator :: "code_unit \<Rightarrow> bool" where
  "isLineTerminator c \<longleftrightarrow> c \<in> {0x0A, 0x0D, 0x2028, 0x2029}"

definition isTrimmed :: "code_unit \<Rightarrow> bool" where
  "isTrimmed c \<longleftrightarrow> isWhiteSpace c \<or> isLineTerminator c"

definition trimStart :: "jsstring \<Rightarrow> jsstring" where
  "trimStart s = dropWhile isTrimmed s"

definition trimEnd :: "jsstring \<Rightarrow> jsstring" where
  "trimEnd s = rev (dropWhile isTrimmed (rev s))"

definition trim :: "jsstring \<Rightarrow> jsstring" where
  "trim s = trimEnd (trimStart s)"

text \<open>The decimal digits of \<open>Date.now()\<close> inside a template literal.\<close>

fun decimal :: "nat \<Rightarrow> jsstring" where
  "decimal n =
     (if n < 10 then [of_nat (48 + n)]
      else decimal (n div 10) @ [of_nat (48 + n mod 10)])"

declare decimal.simps [simp del]

section \<open>The action-data pattern\<close>

text \<open>
  \<^verbatim>\<open>/__ACTION_DATA__(.+?)__ACTION_DATA__/\<close> (XrozenAI.tsx, lines 234 and 236): the
  marker, one or more characters that are not line terminators, taken lazily, and the
  marker again. There is no \<open>g\<close> flag: only the first match counts.

  \<open>lazy_dots\<close> is the lazy loop after the first character of the group: it tries the
  closing marker first and only then takes one more character. It returns how many
  further characters the group takes. \<open>match_here\<close> is one attempt at a fixed start
  and returns the length of the whole match; \<open>regex_search\<close> moves the start from
  left to right and returns the index and the length of the first match.
\<close>

definition ACTION_DATA :: jsstring where
  "ACTION_DATA = js ''__ACTION_DATA__''"

fun lazy_dots :: "jsstring \<Rightarrow> nat option" where
  "lazy_dots [] = None"
| "lazy_dots (c # cs) =
     (if prefix ACTION_DATA (c # cs) then Some 0
      else if isLineTerminator c then None
      else map_option Suc (lazy_dots cs))"

definition match_here :: "jsstring \<Rightarrow> nat option" where
  "match_here s =
     (if prefix ACTION_DATA s then
        (case drop (length ACTION_DATA) s of
           [] \<Rightarrow> None
         | c # cs \<Rightarrow>
             if isLineTerminator c then None
             else map_option (\<lambda>k. length ACTION_DATA + Suc k + length ACTION_DATA)
                    (lazy_dots cs))
      else None)"

fun regex_search :: "jsstring \<Rightarrow> (nat \<times> nat) option" where
  "regex_search [] = None"
| "regex_search (c # cs) =
     (case match_here (c # cs) of
        Some n \<Rightarrow> Some (0, n)
      | None \<Rightarrow> map_option (\<lambda>(i, n). (Suc i, n)) (regex_search cs))"

text \<open>
  Lines 233 to 237: when the pattern matches, the first match is replaced by the empty
  string and the result is trimmed; when it does not, the response is shown as it is
  (and is not trimmed).
\<close>

definition strip_action :: "jsstring \<Rightarrow> jsstring" where
  "strip_action r =
     (case regex_search r of
        None \<Rightarrow> r
      | Some (i, n) \<Rightarrow> trim (take i r @ drop (i + n) r))"



section \<open>Data model\<close>

text \<open>The interfaces \<open>Message\<close> and \<open>Conversation\<close> (lines 16 to 27).\<close>

datatype role = User | Assistant

record message =
  msg_id :: jsstring
  msg_role :: role
  msg_content :: jsstring
  msg_created_at :: jsstring

record conversation =
  conv_id :: jsstring
  conv_title :: jsstring
  conv_updated_at :: jsstring

text \<open>A thrown or returned error value; only its \<open>message\<close> property is read.\<close>

datatype js_error = JsError (err_message: "jsstring option")

datatype variant = Default | Destructive

record toast =
  toast_title :: jsstring
  toast_description :: jsstring
  toast_variant :: variant

text \<open>The requests the component sends to the identity provider and the backend.\<close>

datatype call =
    AuthGetUser
  | ConversationsSelect jsstring
  | MessagesSelect jsstring
  | ConversationsInsert jsstring jsstring
  | MessagesDelete jsstring
  | ConversationsDelete jsstring
  | FunctionsInvoke jsstring jsstring "(role \<times> jsstring) list"

text \<open>
  The component state (the \<open>useState\<close> cells of lines 30 to 36 that the operations
  use), together with what the operations do to the outside: the notifications
  raised, the lines written with \<open>console.error\<close>, and the requests sent, each in
  order.
\<close>

record session =
  conversations :: "conversation list"
  selectedConversation :: "jsstring option"
  messages :: "message list"
  input :: jsstring
  loading :: bool
  loadingConversations :: bool
  toasts :: "toast list"
  console :: "(jsstring \<times> js_error) list"
  calls :: "call list"

text \<open>The state on mount: the initial values given to \<open>useState\<close>.\<close>

definition initial_session :: session where
  "initial_session =
     \<lparr>conversations = [], selectedConversation = None, messages = [], input = [],
      loading = False, loadingConversations = True, toasts = [], console = [],
      calls = []\<rparr>"

text \<open>
  What the remote assistant function gives back: an error; a reply without a usable
  \<open>response\<close> string, on which line 234 throws the given \<open>TypeError\<close>; or the
  response text.
\<close>

datatype invoke_result = InvokeError js_error | Malformed js_error | Response jsstring

text \<open>
  The outside world during one operation: the clock readings of \<open>sendMessage\<close>
  (\<open>Date.now()\<close> of lines 182, 242 and 245, the ISO timestamps of lines 192 and 248),
  the signed-in user, and the answer of the backend to each request. \<open>data\<close> of a
  select may be \<open>null\<close>, which is \<open>None\<close>.
\<close>

record env =
  now_temp :: nat
  iso_user :: jsstring
  now_user :: nat
  now_ai :: nat
  iso_ai :: jsstring
  auth_user :: "jsstring option"
  select_conversations :: "jsstring \<Rightarrow> js_error + conversation list option"
  select_messages :: "jsstring \<Rightarrow> js_error + message list option"
  insert_conversation :: "jsstring \<Rightarrow> jsstring \<Rightarrow> js_error + conversation"
  delete_conversation :: "jsstring \<Rightarrow> js_error option"
  invoke_assistant :: "jsstring \<Rightarrow> jsstring \<Rightarrow> (role \<times> jsstring) list \<Rightarrow> invoke_result"

text \<open>\<open>!selectedConversation\<close>: \<open>null\<close> and the empty string are both falsy.\<close>

definition falsy :: "jsstring option \<Rightarrow> bool" where
  "falsy v \<longleftrightarrow> (case v of None \<Rightarrow> True | Some x \<Rightarrow> x = [])"

section \<open>Operations\<close>

text \<open>
  Each operation is modelled as one uninterrupted run on the state it was rendered
  with: the values its closure reads (\<open>input\<close>, \<open>loading\<close>, \<open>messages\<close>,
  \<open>selectedConversation\<close>) are those of the state it starts from, and no other
  handler runs while it awaits. For \<open>sendMessage\<close> the general case is modelled as
  well (\<open>sendMessage_closure\<close>): a handler that belongs to an earlier render than the
  state it runs on.
\<close>

subsection \<open>loadMessages (lines 90 to 104)\<close>

definition loadMessages :: "env \<Rightarrow> jsstring \<Rightarrow> session \<Rightarrow> session" where
  "loadMessages env conversationId s =
     (let s1 = s\<lparr>calls := calls s @ [MessagesSelect conversationId]\<rparr> in
      case select_messages env conversationId of
        Inl e \<Rightarrow> s1\<lparr>console := console s1 @ [(js ''Error loading messages:'', e)]\<rparr>
      | Inr data \<Rightarrow> s1\<lparr>messages := (case data of None \<Rightarrow> [] | Some ms \<Rightarrow> ms)\<rparr>)"

subsection \<open>loadConversations (lines 62 to 87)\<close>

text \<open>
  \<open>loadMessages\<close> is started without \<open>await\<close>; it writes only \<open>messages\<close>,
  \<open>console\<close> and \<open>calls\<close>, the \<open>finally\<close> block only \<open>loadingConversations\<close>, so
  the order of the two does not show in the final state.
\<close>

definition loadConversations :: "env \<Rightarrow> session \<Rightarrow> session" where
  "loadConversations env s =
     (let s1 = s\<lparr>calls := calls s @ [AuthGetUser]\<rparr> in
      case auth_user env of
        None \<Rightarrow> s1\<lparr>loadingConversations := False\<rparr>
      | Some uid \<Rightarrow>
          (let s2 = s1\<lparr>calls := calls s1 @ [ConversationsSelect uid]\<rparr> in
           (case select_conversations env uid of
              Inl e \<Rightarrow>
                s2\<lparr>console := console s2 @ [(js ''Error loading conversations:'', e)],
                   loadingConversations := False\<rparr>
            | Inr data \<Rightarrow>
                (let s3 = s2\<lparr>conversations := (case data of None \<Rightarrow> [] | Some cs \<Rightarrow> cs)\<rparr>;
                     s4 = (case data of
                             Some (c # cs) \<Rightarrow>
                               if falsy (selectedConversation s)
                               then loadMessages env (conv_id c)
                                      (s3\<lparr>selectedConversation := Some (conv_id c)\<rparr>)
                               else s3
                           | _ \<Rightarrow> s3)
                 in s4\<lparr>loadingConversations := False\<rparr>))))"

subsection \<open>deleteConversation (lines 138 to 175)\<close>

text \<open>The result of deleting the messages is not looked at (lines 143 to 146).\<close>

definition deleteConversation :: "env \<Rightarrow> jsstring \<Rightarrow> session \<Rightarrow> session" where
  "deleteConversation env conversationId s =
     (let s1 = s\<lparr>calls := calls s @ [MessagesDelete conversationId,
                                     ConversationsDelete conversationId]\<rparr> in
      case delete_conversation env conversationId of
        Some e \<Rightarrow>
          s1\<lparr>console := console s1 @ [(js ''Error deleting conversation:'', e)],
             toasts := toasts s1 @
               [\<lparr>toast_title = js ''Error'',
                 toast_description = js ''Failed to delete conversation'',
                 toast_variant = Destructive\<rparr>]\<rparr>
      | None \<Rightarrow>
          let s2 = s1\<lparr>conversations :=
                        filter (\<lambda>c. conv_id c \<noteq> conversationId) (conversations s1)\<rparr>;
              s3 = (if selectedConversation s = Some conversationId
                    then s2\<lparr>selectedConversation := None, messages := []\<rparr>
                    else s2)
          in s3\<lparr>toasts := toasts s3 @
                  [\<lparr>toast_title = js ''Success'',
                    toast_description = js ''Conversation deleted successfully'',
                    toast_variant = Default\<rparr>]\<rparr>)"

subsection \<open>sendMessage (lines 178 to 264)\<close>

definition tempId :: "env \<Rightarrow> jsstring" where
  "tempId env = js ''temp-'' @ decimal (now_temp env)"

definition permanentId :: "env \<Rightarrow> jsstring" where
  "permanentId env = js ''user-'' @ decimal (now_user env)"

definition assistantId :: "env \<Rightarrow> jsstring" where
  "assistantId env = js ''ai-'' @ decimal (now_ai env)"

text \<open>The optimistic message of lines 188 to 193.\<close>

definition optimistic :: "env \<Rightarrow> session \<Rightarrow> message" where
  "optimistic env s =
     \<lparr>msg_id = tempId env, msg_role = User, msg_content = trim (input s),
      msg_created_at = iso_user env\<rparr>"

text \<open>
  Lines 179 to 193, the part before the first \<open>await\<close>: the guard, then the input is
  cleared, the pending flag set and the optimistic message appended. \<open>None\<close> is the
  early \<open>return\<close> of line 179.
\<close>

definition sendMessage_begin :: "env \<Rightarrow> session \<Rightarrow> session option" where
  "sendMessage_begin env s =
     (if trim (input s) = [] \<or> loading s then None
      else Some (s\<lparr>input := [], loading := True,
                   messages := messages s @ [optimistic env s]\<rparr>))"

text \<open>
  Lines 200 to 216: the conversation created for a send. The result is the thrown
  error or the identifier to use, with the state reached.
\<close>

definition createForSend ::
  "env \<Rightarrow> jsstring \<Rightarrow> session \<Rightarrow> (js_error + jsstring) \<times> session" where
  "createForSend env userMessage p =
     (let p1 = p\<lparr>calls := calls p @ [AuthGetUser]\<rparr> in
      case auth_user env of
        None \<Rightarrow> (Inl (JsError (Some (js ''User not authenticated''))), p1)
      | Some uid \<Rightarrow>
          (let title = take 50 userMessage;
               p2 = p1\<lparr>calls := calls p1 @ [ConversationsInsert uid title]\<rparr> in
           (case insert_conversation env uid title of
              Inl convError \<Rightarrow> (Inl convError, p2)
            | Inr newConv \<Rightarrow>
                (Inr (conv_id newConv),
                 p2\<lparr>selectedConversation := Some (conv_id newConv),
                    conversations := newConv # conversations p2\<rparr>))))"

text \<open>
  Lines 196 to 217. \<open>s\<close> is the state the handler was rendered with (its closure),
  \<open>p\<close> the pending state the updates apply to.
\<close>

definition ensureConversation ::
  "env \<Rightarrow> session \<Rightarrow> session \<Rightarrow> (js_error + jsstring) \<times> session" where
  "ensureConversation env s p =
     (case selectedConversation s of
        None \<Rightarrow> createForSend env (trim (input s)) p
      | Some c \<Rightarrow> if c = [] then createForSend env (trim (input s)) p else (Inr c, p))"

text \<open>The context sent with the message (lines 223 to 226).\<close>

definition history :: "env \<Rightarrow> session \<Rightarrow> (role \<times> jsstring) list" where
  "history env s =
     map (\<lambda>m. (msg_role m, msg_content m))
       (filter (\<lambda>m. msg_id m \<noteq> tempId env) (messages s))"

text \<open>The update of lines 240 to 249.\<close>

definition commit :: "env \<Rightarrow> jsstring \<Rightarrow> message list \<Rightarrow> message list" where
  "commit env responseContent prev =
     map (\<lambda>m. if msg_id m = tempId env then m\<lparr>msg_id := permanentId env\<rparr> else m) prev
     @ [\<lparr>msg_id = assistantId env, msg_role = Assistant, msg_content = responseContent,
         msg_created_at = iso_ai env\<rparr>]"

text \<open>
  The \<open>try\<close> block, lines 195 to 250: \<open>Some e\<close> when \<open>e\<close> is thrown, \<open>None\<close> when the
  block runs to its end.
\<close>

definition sendMessage_try :: "env \<Rightarrow> session \<Rightarrow> session \<Rightarrow> js_error option \<times> session" where
  "sendMessage_try env s p =
     (case ensureConversation env s p of
        (Inl e, p1) \<Rightarrow> (Some e, p1)
      | (Inr conversationIdToUse, p1) \<Rightarrow>
          (let userMessage = trim (input s);
               p2 = p1\<lparr>calls := calls p1 @
                      [FunctionsInvoke userMessage conversationIdToUse (history env s)]\<rparr> in
           (case invoke_assistant env userMessage conversationIdToUse (history env s) of
              InvokeError e \<Rightarrow> (Some e, p2)
            | Malformed e \<Rightarrow> (Some e, p2)
            | Response r \<Rightarrow>
                (None, p2\<lparr>messages := commit env (strip_action r) (messages p2)\<rparr>))))"

text \<open>The \<open>catch\<close> block, lines 251 to 260.\<close>

definition sendMessage_catch :: "env \<Rightarrow> js_error \<Rightarrow> session \<Rightarrow> session" where
  "sendMessage_catch env e p =
     p\<lparr>console := console p @ [(js ''Error sending message:'', e)],
       messages := filter (\<lambda>m. msg_id m \<noteq> tempId env) (messages p),
       toasts := toasts p @
         [\<lparr>toast_title = js ''Error'',
           toast_description =
             (case err_message e of
                None \<Rightarrow> js ''Failed to send message''
              | Some m \<Rightarrow> if m = [] then js ''Failed to send message'' else m),
           toast_variant = Destructive\<rparr>]\<rparr>"

text \<open>The whole handler; the \<open>finally\<close> block of lines 261 to 263 clears the flag.\<close>

definition sendMessage :: "env \<Rightarrow> session \<Rightarrow> session" where
  "sendMessage env s =
     (case sendMessage_begin env s of
        None \<Rightarrow> s
      | Some p \<Rightarrow>
          (case sendMessage_try env s p of
             (None, p') \<Rightarrow> p'\<lparr>loading := False\<rparr>
           | (Some e, p') \<Rightarrow> (sendMessage_catch env e p')\<lparr>loading := False\<rparr>))"

text \<open>
  The handler is a closure of the render that created it. What it reads directly,
  \<open>input\<close> and \<open>loading\<close> (line 179), \<open>selectedConversation\<close> (line 196) and
  \<open>messages\<close> (line 223), are the values of that render, here the state \<open>c\<close>; what
  it writes with the state setters goes to the state at the time of the call, here
  \<open>s\<close>, the functional updates of lines 188, 216, 240 and 254 reading that state.
  \<open>sendMessage env s\<close> above is the case \<open>c = s\<close>, the handler of the latest render.
\<close>

definition sendMessage_begin_closure :: "env \<Rightarrow> session \<Rightarrow> session \<Rightarrow> session option" where
  "sendMessage_begin_closure env c s =
     (if trim (input c) = [] \<or> loading c then None
      else Some (s\<lparr>input := [], loading := True,
                   messages := messages s @ [optimistic env c]\<rparr>))"

definition sendMessage_closure :: "env \<Rightarrow> session \<Rightarrow> session \<Rightarrow> session" where
  "sendMessage_closure env c s =
     (case sendMessage_begin_closure env c s of
        None \<Rightarrow> s
      | Some p \<Rightarrow>
          (case sendMessage_try env c p of
             (None, p') \<Rightarrow> p'\<lparr>loading := False\<rparr>
           | (Some e, p') \<Rightarrow> (sendMessage_catch env e p')\<lparr>loading := False\<rparr>))"

section \<open>Example data\<close>

text \<open>
  A signed-in user \<open>u1\<close> with one stored conversation \<open>B\<close> and no messages in it; the
  backend accepts every request and the assistant answers with the response of the
  action-data scenario.
\<close>

definition conv_B :: conversation where
  "conv_B = \<lparr>conv_id = js ''B'', conv_title = js ''Second'', conv_updated_at = js ''10:00''\<rparr>"

definition ok_env :: env where
  "ok_env =
     \<lparr>now_temp = 100, iso_user = js ''T1'', now_user = 200, now_ai = 201, iso_ai = js ''T2'',
      auth_user = Some (js ''u1''),
      select_conversations = (\<lambda>uid. Inr (Some [conv_B])),
      select_messages = (\<lambda>cid. Inr (Some [])),
      insert_conversation = (\<lambda>uid title.
        Inr \<lparr>conv_id = js ''N'', conv_title = title, conv_updated_at = js ''10:05''\<rparr>),
      delete_conversation = (\<lambda>cid. None),
      invoke_assistant = (\<lambda>msg cid hist.
        Response (js
          ''Sure!__ACTION_DATA__{\"type\":\"create_project\"}__ACTION_DATA__ Done.''))\<rparr>"

text \<open>The same world with every backend request and the assistant call failing.\<close>

definition failing_env :: env where
  "failing_env =
     ok_env\<lparr>select_conversations := (\<lambda>uid. Inl (JsError (Some (js ''offline'')))),
            select_messages := (\<lambda>cid. Inl (JsError (Some (js ''offline'')))),
            insert_conversation := (\<lambda>uid title. Inl (JsError (Some (js ''offline'')))),
            delete_conversation := (\<lambda>cid. Some (JsError (Some (js ''offline'')))),
            invoke_assistant := (\<lambda>msg cid hist. InvokeError (JsError (Some (js ''offline''))))\<rparr>"

text \<open>Nobody is signed in.\<close>

definition signed_out_env :: env where
  "signed_out_env = ok_env\<lparr>auth_user := None\<rparr>"

text \<open>The backend works, the assistant function answers with an error.\<close>

definition assistant_down_env :: env where
  "assistant_down_env =
     ok_env\<lparr>invoke_assistant :=
              (\<lambda>msg cid hist. InvokeError (JsError (Some (js ''overloaded''))))\<rparr>"

text \<open>The world of \<open>ok_env\<close> a moment later.\<close>

definition later_env :: env where
  "later_env = ok_env\<lparr>now_temp := 101, now_user := 300, now_ai := 301\<rparr>"

text \<open>Conversation \<open>B\<close> selected, nothing pending, \<open>hello\<close> typed.\<close>

definition hello_session :: session where
  "hello_session =
     initial_session\<lparr>conversations := [conv_B], selectedConversation := Some (js ''B''),
                     input := js ''hello'', loadingConversations := False\<rparr>"

text \<open>A second stored conversation, updated after \<open>B\<close>.\<close>

definition conv_A :: conversation where
  "conv_A = \<lparr>conv_id = js ''A'', conv_title = js ''First'', conv_updated_at = js ''10:02''\<rparr>"

text \<open>The session \<open>hello_session\<close> with a whitespace-only input.\<close>

definition blank_session :: session where
  "blank_session = hello_session\<lparr>input := js ''  ''\<rparr>"

text \<open>The pending state a send of \<open>hello\<close> reaches before its first \<open>await\<close>.\<close>

definition pending_session :: session where
  "pending_session =
     hello_session\<lparr>input := [], loading := True,
                   messages := [optimistic ok_env hello_session]\<rparr>"

text \<open>Conversation \<open>B\<close> with two stored messages, and \<open>hello\<close> typed.\<close>

definition chat_session :: session where
  "chat_session =
     hello_session\<lparr>messages :=
       [\<lparr>msg_id = js ''m1'', msg_role = User, msg_content = js ''hi'',
         msg_created_at = js ''T0''\<rparr>,
        \<lparr>msg_id = js ''m2'', msg_role = Assistant, msg_content = js ''Hi there'',
         msg_created_at = js ''T0''\<rparr>]\<rparr>"

text \<open>Both conversations listed, the newer first; \<open>B\<close> selected with its messages.\<close>

definition two_conv_session :: session where
  "two_conv_session = chat_session\<lparr>conversations := [conv_A, conv_B]\<rparr>"

text \<open>No conversation selected, and a text with blanks around it typed.\<close>

definition fresh_session :: session where
  "fresh_session =
     initial_session\<lparr>input := js ''  hello '', loadingConversations := False\<rparr>"

text \<open>No conversation selected, and a text of 74 characters typed.\<close>

definition long_session :: session where
  "long_session =
     initial_session\<lparr>input :=
         js ''Please cut the wedding footage into a two minute highlight reel for Friday'',
       loadingConversations := False\<rparr>"

text \<open>No conversation selected, and a whitespace-only text typed.\<close>

definition fresh_blank_session :: session where
  "fresh_blank_session =
     initial_session\<lparr>input := js '' '', loadingConversations := False\<rparr>"

text \<open>The conversations can be read, the messages cannot.\<close>

definition messages_down_env :: env where
  "messages_down_env =
     ok_env\<lparr>select_messages := (\<lambda>cid. Inl (JsError (Some (js ''offline''))))\<rparr>"



section \<open>Basic facts\<close>

lemmas string_eval =
  js_def trim_def trimStart_def trimEnd_def isTrimmed_def isWhiteSpace_def
  isLineTerminator_def

lemmas example_defs =
  hello_session_def initial_session_def conv_A_def conv_B_def ok_env_def failing_env_def
  signed_out_env_def assistant_down_env_def later_env_def

lemmas fixture_defs =
  blank_session_def pending_session_def chat_session_def two_conv_session_def
  fresh_session_def long_session_def fresh_blank_session_def messages_down_env_def

lemma trim_hello: "trim (js ''hello'') = js ''hello''"
  by (simp add: string_eval)


lemma trim_fresh: "trim (js ''  hello '') = js ''hello''"
  by (simp add: string_eval)

lemma trim_blank1: "trim (js '' '') = []"
  by (simp add: string_eval)

lemma sendMessage_rejected:
  "sendMessage_begin env s = None \<Longrightarrow> sendMessage env s = s"
  by (simp add: sendMessage_def)

lemma sendMessage_begin_None_iff:
  "sendMessage_begin env s = None \<longleftrightarrow> trim (input s) = [] \<or> loading s"
  by (simp add: sendMessage_begin_def)

lemma sendMessage_begin_Some:
  assumes "sendMessage_begin env s = Some p"
  shows "p = s\<lparr>input := [], loading := True, messages := messages s @ [optimistic env s]\<rparr>"
    and "trim (input s) \<noteq> []" and "\<not> loading s"
  using assms by (auto simp: sendMessage_begin_def split: if_splits)

text \<open>Creating or looking up the conversation touches neither the message list nor
  the notifications, the console or the pending flag.\<close>

lemma createForSend_frame:
  "messages (snd (createForSend env u p)) = messages p"
  "toasts (snd (createForSend env u p)) = toasts p"
  "console (snd (createForSend env u p)) = console p"
  "loading (snd (createForSend env u p)) = loading p"
  by (simp_all add: createForSend_def Let_def split: option.splits sum.splits)

lemma ensureConversation_frame:
  "messages (snd (ensureConversation env s p)) = messages p"
  "toasts (snd (ensureConversation env s p)) = toasts p"
  "console (snd (ensureConversation env s p)) = console p"
  "loading (snd (ensureConversation env s p)) = loading p"
  by (simp_all add: ensureConversation_def createForSend_frame split: option.splits)

text \<open>When the \<open>try\<close> block throws, it has changed neither list.\<close>

lemma sendMessage_try_throws:
  assumes "fst (sendMessage_try env s p) = Some e"
  shows "messages (snd (sendMessage_try env s p)) = messages p"
    and "toasts (snd (sendMessage_try env s p)) = toasts p"
proof -
  obtain r p1 where ec: "ensureConversation env s p = (r, p1)"
    by (cases "ensureConversation env s p")
  have f: "messages p1 = messages p" "toasts p1 = toasts p"
    using ensureConversation_frame(1,2) [of env s p] ec by simp_all
  show "messages (snd (sendMessage_try env s p)) = messages p"
    using assms ec f
    by (auto simp: sendMessage_try_def Let_def split: sum.splits invoke_result.splits)
  show "toasts (snd (sendMessage_try env s p)) = toasts p"
    using assms ec f
    by (auto simp: sendMessage_try_def Let_def split: sum.splits invoke_result.splits)
qed

text \<open>
  The \<open>try\<close> block throws exactly when the conversation cannot be created (no user, or
  the insert is refused) or the assistant call fails (an error, or a reply without a
  response text).
\<close>

lemma sendMessage_try_throws_iff:
  "fst (sendMessage_try env s p) = Some e \<longleftrightarrow>
     fst (ensureConversation env s p) = Inl e
     \<or> (\<exists>cid. fst (ensureConversation env s p) = Inr cid
          \<and> (invoke_assistant env (trim (input s)) cid (history env s) = InvokeError e
             \<or> invoke_assistant env (trim (input s)) cid (history env s) = Malformed e))"
  by (cases "ensureConversation env s p")
     (auto simp: sendMessage_try_def Let_def split: sum.splits invoke_result.splits)

lemma sendMessage_try_response:
  assumes "ensureConversation env s p = (Inr cid, p1)"
    and "invoke_assistant env (trim (input s)) cid (history env s) = Response r"
  shows "fst (sendMessage_try env s p) = None"
    and "messages (snd (sendMessage_try env s p)) = commit env (strip_action r) (messages p)"
  using assms ensureConversation_frame(1) [of env s p]
  by (simp_all add: sendMessage_try_def Let_def)

lemma rename_fresh:
  "t \<notin> msg_id ` set old \<Longrightarrow>
     map (\<lambda>m. if msg_id m = t then m\<lparr>msg_id := u\<rparr> else m) old = old"
  by (induction old) auto

lemma remove_fresh:
  "t \<notin> msg_id ` set old \<Longrightarrow> filter (\<lambda>m. msg_id m \<noteq> t) old = old"
  by (induction old) auto

lemma commit_pending:
  assumes "tempId env \<notin> msg_id ` set old"
  shows "commit env r (old @ [optimistic env s]) =
           old @ [(optimistic env s)\<lparr>msg_id := permanentId env\<rparr>,
                  \<lparr>msg_id = assistantId env, msg_role = Assistant, msg_content = r,
                   msg_created_at = iso_ai env\<rparr>]"
  using assms by (simp add: commit_def rename_fresh optimistic_def)

lemma rollback_pending:
  assumes "tempId env \<notin> msg_id ` set old"
  shows "filter (\<lambda>m. msg_id m \<noteq> tempId env) (old @ [optimistic env s]) = old"
  using assms by (simp add: remove_fresh optimistic_def)

lemma permanentId_not_temporary:
  "permanentId env \<noteq> tempId env" "\<not> prefix (js ''temp-'') (permanentId env)"
  by (simp_all add: permanentId_def tempId_def js_def)

text \<open>The example sessions, evaluated.\<close>

lemma begin_hello: "sendMessage_begin ok_env hello_session = Some pending_session"
  by (simp add: sendMessage_begin_def fixture_defs example_defs trim_hello)
     (simp add: js_def)

lemma ensure_hello:
  "ensureConversation ok_env hello_session pending_session = (Inr (js ''B''), pending_session)"
  by (simp add: ensureConversation_def example_defs js_def)

lemma begin_chat:
  "sendMessage_begin env chat_session =
     Some (chat_session\<lparr>input := [], loading := True,
                         messages := messages chat_session @ [optimistic env chat_session]\<rparr>)"
  by (simp add: sendMessage_begin_def fixture_defs example_defs trim_hello)
     (simp add: js_def)

lemma ensure_chat:
  "ensureConversation env chat_session p = (Inr (js ''B''), p)"
  by (simp add: ensureConversation_def fixture_defs example_defs js_def)

lemma fresh_chat: "tempId env \<notin> msg_id ` set (messages chat_session)"
  by (simp add: tempId_def fixture_defs example_defs js_def)

lemma invoke_ok:
  "invoke_assistant ok_env m c h =
     Response (js ''Sure!__ACTION_DATA__{\"type\":\"create_project\"}__ACTION_DATA__ Done.'')"
  by (simp add: ok_env_def)

lemma invoke_failing:
  "invoke_assistant failing_env m c h = InvokeError (JsError (Some (js ''offline'')))"
  by (simp add: failing_env_def)

lemma strip_scenario:
  "strip_action (js ''Sure!__ACTION_DATA__{\"type\":\"create_project\"}__ACTION_DATA__ Done.'')
     = js ''Sure! Done.''"
  by code_simp

section \<open>Rejected sends\<close>


lemma sendMessage_closure_same: "sendMessage_closure env s s = sendMessage env s"
  by (simp add: sendMessage_closure_def sendMessage_def sendMessage_begin_closure_def
        sendMessage_begin_def)





section \<open>A send that succeeds\<close>

text \<open>
  Claim C1. Take a send that has passed the guard and reached its pending state \<open>p\<close>,
  whose list is the earlier messages followed by the optimistic message with the
  temporary identifier \<open>tempId\<close>; that identifier belongs to the optimistic message
  alone. If the conversation is there (selected, or created) and the remote assistant
  call returns a response text, then the final message list is the earlier messages
  unchanged, then the optimistic message with the same role, content and timestamp
  under the identifier \<open>permanentId\<close>, which differs from the temporary one and does not
  start with \<open>temp-\<close>, then exactly one assistant message at the tail.
\<close>

theorem sendMessage_success:
  assumes "sendMessage_begin env s = Some p"
    and "tempId env \<notin> msg_id ` set (messages s)"
    and "ensureConversation env s p = (Inr cid, p1)"
    and "invoke_assistant env (trim (input s)) cid (history env s) = Response r"
  shows "messages p = messages s @ [optimistic env s]
     \<and> msg_id (optimistic env s) = tempId env
     \<and> messages (sendMessage env s) =
         messages s @ [(optimistic env s)\<lparr>msg_id := permanentId env\<rparr>,
                       \<lparr>msg_id = assistantId env, msg_role = Assistant,
                        msg_content = strip_action r, msg_created_at = iso_ai env\<rparr>]
     \<and> msg_content ((optimistic env s)\<lparr>msg_id := permanentId env\<rparr>) = trim (input s)
     \<and> msg_role ((optimistic env s)\<lparr>msg_id := permanentId env\<rparr>) = User
     \<and> permanentId env \<noteq> tempId env
     \<and> \<not> prefix (js ''temp-'') (permanentId env)"
proof -
  have p: "messages p = messages s @ [optimistic env s]"
    using sendMessage_begin_Some(1) [OF assms(1)] by simp
  obtain p' where t: "sendMessage_try env s p = (None, p')"
    using sendMessage_try_response(1) [OF assms(3,4)]
    by (cases "sendMessage_try env s p") simp
  have "messages p' = commit env (strip_action r) (messages p)"
    using sendMessage_try_response(2) [OF assms(3,4)] t by simp
  then have "messages p' =
       messages s @ [(optimistic env s)\<lparr>msg_id := permanentId env\<rparr>,
                     \<lparr>msg_id = assistantId env, msg_role = Assistant,
                      msg_content = strip_action r, msg_created_at = iso_ai env\<rparr>]"
    using p commit_pending [OF assms(2)] by simp
  moreover have "sendMessage env s = p'\<lparr>loading := False\<rparr>"
    using assms(1) t by (simp add: sendMessage_def)
  ultimately show ?thesis
    using p permanentId_not_temporary by (simp add: optimistic_def)
qed

theorem sendMessage_success_witness:
  "tempId ok_env \<notin> msg_id ` set (messages chat_session)
   \<and> messages (sendMessage ok_env chat_session) =
       messages chat_session @
         [\<lparr>msg_id = permanentId ok_env, msg_role = User, msg_content = js ''hello'',
           msg_created_at = js ''T1''\<rparr>,
          \<lparr>msg_id = assistantId ok_env, msg_role = Assistant, msg_content = js ''Sure! Done.'',
           msg_created_at = js ''T2''\<rparr>]"
proof -
  have i: "input chat_session = js ''hello''"
    by (simp add: fixture_defs example_defs)
  have c: "iso_user ok_env = js ''T1''" "iso_ai ok_env = js ''T2''"
    by (simp_all add: ok_env_def)
  show ?thesis
    using sendMessage_success [OF begin_chat fresh_chat ensure_chat invoke_ok] fresh_chat
    by (simp add: optimistic_def strip_scenario i c trim_hello)
qed

section \<open>A send that fails\<close>

text \<open>
  Which conversation a send uses, read off the world: the selected one; otherwise the
  one the backend returns for the insert; and no conversation, but an error, when
  nobody is signed in (line 201) or the insert is refused (line 212).
\<close>

lemma ensureConversation_selected:
  "selectedConversation s = Some cid \<Longrightarrow> cid \<noteq> [] \<Longrightarrow>
     fst (ensureConversation env s p) = Inr cid"
  by (simp add: ensureConversation_def)

lemma ensureConversation_no_user:
  "falsy (selectedConversation s) \<Longrightarrow> auth_user env = None \<Longrightarrow>
     fst (ensureConversation env s p) = Inl (JsError (Some (js ''User not authenticated'')))"
  by (auto simp: ensureConversation_def createForSend_def falsy_def Let_def
           split: option.splits)

lemma ensureConversation_refused:
  "falsy (selectedConversation s) \<Longrightarrow> auth_user env = Some uid \<Longrightarrow>
     insert_conversation env uid (take 50 (trim (input s))) = Inl e \<Longrightarrow>
     fst (ensureConversation env s p) = Inl e"
  by (auto simp: ensureConversation_def createForSend_def falsy_def Let_def
           split: option.splits)

lemma ensureConversation_created:
  "falsy (selectedConversation s) \<Longrightarrow> auth_user env = Some uid \<Longrightarrow>
     insert_conversation env uid (take 50 (trim (input s))) = Inr newConv \<Longrightarrow>
     fst (ensureConversation env s p) = Inr (conv_id newConv)"
  by (auto simp: ensureConversation_def createForSend_def falsy_def Let_def
           split: option.splits)

lemma begin_fresh:
  "sendMessage_begin env fresh_session =
     Some (fresh_session\<lparr>input := [], loading := True,
                          messages := messages fresh_session @
                            [optimistic env fresh_session]\<rparr>)"
  by (simp add: sendMessage_begin_def fixture_defs example_defs trim_fresh)
     (simp add: js_def)

lemma fresh_fresh: "tempId env \<notin> msg_id ` set (messages fresh_session)"
  by (simp add: fixture_defs example_defs)

text \<open>
  Claim C2. Take a send that has passed the guard, with the temporary identifier
  belonging to the optimistic message alone. Suppose the lazy creation of the
  conversation fails: no conversation is selected and either nobody is signed in, or
  the backend refuses the insert with \<open>e\<close>. Or suppose the remote assistant call
  fails with \<open>e\<close> (an error, or a reply without a response text), on the selected
  conversation or on the one just created. Then the final message list equals the
  list before the send, so neither the optimistic message nor any assistant or error
  message is in it, and one error notification is raised, carrying the message of
  the error or, if it has none, the fixed text.
\<close>

theorem sendMessage_failure:
  assumes "sendMessage_begin env s = Some p"
    and "tempId env \<notin> msg_id ` set (messages s)"
    and "(falsy (selectedConversation s) \<and> auth_user env = None
            \<and> e = JsError (Some (js ''User not authenticated'')))
       \<or> (falsy (selectedConversation s)
            \<and> (\<exists>uid. auth_user env = Some uid
                 \<and> insert_conversation env uid (take 50 (trim (input s))) = Inl e))
       \<or> (\<exists>cid. (selectedConversation s = Some cid \<and> cid \<noteq> []
                 \<or> falsy (selectedConversation s)
                   \<and> (\<exists>uid newConv. auth_user env = Some uid
                        \<and> insert_conversation env uid (take 50 (trim (input s)))
                            = Inr newConv
                        \<and> cid = conv_id newConv))
            \<and> (invoke_assistant env (trim (input s)) cid (history env s) = InvokeError e
               \<or> invoke_assistant env (trim (input s)) cid (history env s) = Malformed e))"
  shows "messages (sendMessage env s) = messages s
     \<and> toasts (sendMessage env s) =
         toasts s @ [\<lparr>toast_title = js ''Error'',
                      toast_description =
                        (case err_message e of
                           None \<Rightarrow> js ''Failed to send message''
                         | Some m \<Rightarrow> if m = [] then js ''Failed to send message'' else m),
                      toast_variant = Destructive\<rparr>]"
proof -
  have p: "messages p = messages s @ [optimistic env s]" "toasts p = toasts s"
    using sendMessage_begin_Some(1) [OF assms(1)] by simp_all
  have "fst (ensureConversation env s p) = Inl e
         \<or> (\<exists>cid. fst (ensureConversation env s p) = Inr cid
              \<and> (invoke_assistant env (trim (input s)) cid (history env s) = InvokeError e
                 \<or> invoke_assistant env (trim (input s)) cid (history env s) = Malformed e))"
    using assms(3) ensureConversation_selected [of s _ env p]
      ensureConversation_no_user [of s env p] ensureConversation_refused [of s env _ e p]
      ensureConversation_created [of s env _ _ p]
    by metis
  then have thrown: "fst (sendMessage_try env s p) = Some e"
    by (simp only: sendMessage_try_throws_iff)
  obtain p' where t: "sendMessage_try env s p = (Some e, p')"
    using thrown by (cases "sendMessage_try env s p") simp
  have p': "messages p' = messages p" "toasts p' = toasts p"
    using sendMessage_try_throws [OF thrown] t by simp_all
  have "sendMessage env s = (sendMessage_catch env e p')\<lparr>loading := False\<rparr>"
    using assms(1) t by (simp add: sendMessage_def)
  then show ?thesis
    using p p' rollback_pending [OF assms(2)] by (simp add: sendMessage_catch_def)
qed

theorem sendMessage_failure_witness:
  "falsy (selectedConversation fresh_session) \<and> auth_user signed_out_env = None
   \<and> messages (sendMessage signed_out_env fresh_session) = messages fresh_session
   \<and> toasts (sendMessage signed_out_env fresh_session) =
       [\<lparr>toast_title = js ''Error'', toast_description = js ''User not authenticated'',
         toast_variant = Destructive\<rparr>]
   \<and> insert_conversation failing_env (js ''u1'') (take 50 (trim (input fresh_session)))
       = Inl (JsError (Some (js ''offline'')))
   \<and> messages (sendMessage failing_env fresh_session) = messages fresh_session
   \<and> toasts (sendMessage failing_env fresh_session) =
       [\<lparr>toast_title = js ''Error'', toast_description = js ''offline'',
         toast_variant = Destructive\<rparr>]
   \<and> tempId failing_env \<notin> msg_id ` set (messages chat_session)
   \<and> messages (sendMessage failing_env chat_session) = messages chat_session
   \<and> toasts (sendMessage failing_env chat_session) =
       [\<lparr>toast_title = js ''Error'', toast_description = js ''offline'',
         toast_variant = Destructive\<rparr>]
   \<and> messages (sendMessage assistant_down_env fresh_session) = messages fresh_session
   \<and> toasts (sendMessage assistant_down_env fresh_session) =
       [\<lparr>toast_title = js ''Error'', toast_description = js ''overloaded'',
         toast_variant = Destructive\<rparr>]"
proof -
  have f: "falsy (selectedConversation fresh_session)"
    by (simp add: falsy_def fixture_defs example_defs)
  have t: "toasts fresh_session = []" "toasts chat_session = []"
    by (simp_all add: fixture_defs example_defs)
  have sel: "selectedConversation chat_session = Some (js ''B'')" "js ''B'' \<noteq> []"
    by (simp_all add: fixture_defs example_defs js_def)
  have u0: "auth_user signed_out_env = None"
    by (simp add: signed_out_env_def)
  have u1: "auth_user failing_env = Some (js ''u1'')"
    "auth_user assistant_down_env = Some (js ''u1'')"
    by (simp_all add: failing_env_def assistant_down_env_def ok_env_def)
  have ins1: "insert_conversation failing_env (js ''u1'') (take 50 (trim (input fresh_session)))
                = Inl (JsError (Some (js ''offline'')))"
    by (simp add: failing_env_def)
  have ins2: "insert_conversation assistant_down_env (js ''u1'')
                (take 50 (trim (input fresh_session)))
                = Inr \<lparr>conv_id = js ''N'',
                       conv_title = take 50 (trim (input fresh_session)),
                       conv_updated_at = js ''10:05''\<rparr>"
    by (simp add: assistant_down_env_def ok_env_def)
  have inv: "invoke_assistant assistant_down_env m c h
               = InvokeError (JsError (Some (js ''overloaded'')))" for m c h
    by (simp add: assistant_down_env_def)
  let ?rolled_back = "\<lambda>env s e.
     messages (sendMessage env s) = messages s
     \<and> toasts (sendMessage env s) =
         toasts s @ [\<lparr>toast_title = js ''Error'',
                      toast_description =
                        (case err_message e of
                           None \<Rightarrow> js ''Failed to send message''
                         | Some m \<Rightarrow> if m = [] then js ''Failed to send message'' else m),
                      toast_variant = Destructive\<rparr>]"
  have "?rolled_back signed_out_env fresh_session
          (JsError (Some (js ''User not authenticated'')))"
    by (rule sendMessage_failure [OF begin_fresh fresh_fresh]) (use f u0 in blast)
  then have w1: "messages (sendMessage signed_out_env fresh_session) = messages fresh_session
     \<and> toasts (sendMessage signed_out_env fresh_session) =
       [\<lparr>toast_title = js ''Error'', toast_description = js ''User not authenticated'',
         toast_variant = Destructive\<rparr>]"
    using t by (simp add: js_def)
  have "?rolled_back failing_env fresh_session (JsError (Some (js ''offline'')))"
    by (rule sendMessage_failure [OF begin_fresh fresh_fresh]) (use f u1(1) ins1 in blast)
  then have w2: "messages (sendMessage failing_env fresh_session) = messages fresh_session
     \<and> toasts (sendMessage failing_env fresh_session) =
       [\<lparr>toast_title = js ''Error'', toast_description = js ''offline'',
         toast_variant = Destructive\<rparr>]"
    using t by (simp add: js_def)
  have "?rolled_back failing_env chat_session (JsError (Some (js ''offline'')))"
    by (rule sendMessage_failure [OF begin_chat fresh_chat])
       (use sel invoke_failing in blast)
  then have w3: "messages (sendMessage failing_env chat_session) = messages chat_session
     \<and> toasts (sendMessage failing_env chat_session) =
       [\<lparr>toast_title = js ''Error'', toast_description = js ''offline'',
         toast_variant = Destructive\<rparr>]"
    using t by (simp add: js_def)
  have "?rolled_back assistant_down_env fresh_session (JsError (Some (js ''overloaded'')))"
    by (rule sendMessage_failure [OF begin_fresh fresh_fresh])
       (use f u1(2) ins2 inv in fastforce)
  then have w4: "messages (sendMessage assistant_down_env fresh_session)
                   = messages fresh_session
     \<and> toasts (sendMessage assistant_down_env fresh_session) =
       [\<lparr>toast_title = js ''Error'', toast_description = js ''overloaded'',
         toast_variant = Destructive\<rparr>]"
    using t by (simp add: js_def)
  show ?thesis
    using f u0 ins1 fresh_chat w1 w2 w3 w4 by blast
qed

section \<open>The pending flag\<close>




section \<open>The embedded action block\<close>

text \<open>
  Claim C5. When the send goes through and the remote assistant function answers with
  the text \<open>Sure!__ACTION_DATA__{"type":"create_project"}__ACTION_DATA__ Done.\<close>, the
  assistant message appended at the tail has exactly the content \<open>Sure! Done.\<close>: the
  block and both markers are gone, and nothing else is made of the block.
\<close>

theorem action_data_scenario:
  assumes "sendMessage_begin env s = Some p"
    and "ensureConversation env s p = (Inr cid, p1)"
    and "invoke_assistant env (trim (input s)) cid (history env s) =
           Response (js ''Sure!__ACTION_DATA__{\"type\":\"create_project\"}__ACTION_DATA__ Done.'')"
  shows "last (messages (sendMessage env s)) =
           \<lparr>msg_id = assistantId env, msg_role = Assistant, msg_content = js ''Sure! Done.'',
            msg_created_at = iso_ai env\<rparr>"
proof -
  obtain p' where t: "sendMessage_try env s p = (None, p')"
    using sendMessage_try_response(1) [OF assms(2,3)]
    by (cases "sendMessage_try env s p") simp
  have "messages p' =
          commit env
            (strip_action
               (js ''Sure!__ACTION_DATA__{\"type\":\"create_project\"}__ACTION_DATA__ Done.''))
            (messages p)"
    using sendMessage_try_response(2) [OF assms(2,3)] t by simp
  then have "last (messages p') =
      \<lparr>msg_id = assistantId env, msg_role = Assistant, msg_content = js ''Sure! Done.'',
       msg_created_at = iso_ai env\<rparr>"
    by (simp add: commit_def strip_scenario)
  moreover have "sendMessage env s = p'\<lparr>loading := False\<rparr>"
    using assms(1) t by (simp add: sendMessage_def)
  ultimately show ?thesis by simp
qed

theorem action_data_scenario_witness:
  "sendMessage_begin ok_env hello_session = Some pending_session
   \<and> ensureConversation ok_env hello_session pending_session = (Inr (js ''B''), pending_session)
   \<and> last (messages (sendMessage ok_env hello_session)) =
       \<lparr>msg_id = assistantId ok_env, msg_role = Assistant, msg_content = js ''Sure! Done.'',
        msg_created_at = iso_ai ok_env\<rparr>"
  using action_data_scenario [OF begin_hello ensure_hello invoke_ok] begin_hello ensure_hello
  by simp

section \<open>Creating the conversation on the first send\<close>

text \<open>
  Claim C6, as amended. With no conversation selected, for a send that passes the
  guard (no send pending, and a text that is not empty or whitespace-only), if a user
  is signed in and the backend accepts the insert, then: the insert is requested with
  the first 50 code units of the trimmed text as title (the whole trimmed text when it
  has at most 50); the conversation the backend returns is put at the head of the
  list and selected; all this is done in the state reached before the assistant
  function is invoked, and the invocation, which comes after the insert, carries the
  new identifier. The list and the selection stay so whatever the assistant answers.
\<close>

theorem create_on_send:
  assumes "selectedConversation s = None"
    and "sendMessage_begin env s = Some p"
    and "auth_user env = Some uid"
    and "insert_conversation env uid (take 50 (trim (input s))) = Inr newConv"
  shows "fst (ensureConversation env s p) = Inr (conv_id newConv)
     \<and> conversations (snd (ensureConversation env s p)) = newConv # conversations s
     \<and> selectedConversation (snd (ensureConversation env s p)) = Some (conv_id newConv)
     \<and> calls (snd (ensureConversation env s p)) =
         calls s @ [AuthGetUser, ConversationsInsert uid (take 50 (trim (input s)))]
     \<and> calls (sendMessage env s) =
         calls s @ [AuthGetUser, ConversationsInsert uid (take 50 (trim (input s))),
                    FunctionsInvoke (trim (input s)) (conv_id newConv) (history env s)]
     \<and> conversations (sendMessage env s) = newConv # conversations s
     \<and> selectedConversation (sendMessage env s) = Some (conv_id newConv)
     \<and> (length (trim (input s)) \<le> 50 \<longrightarrow> take 50 (trim (input s)) = trim (input s))"
proof -
  have p: "p = s\<lparr>input := [], loading := True,
                 messages := messages s @ [optimistic env s]\<rparr>"
    using assms(2) by (rule sendMessage_begin_Some)
  let ?p1 = "p\<lparr>calls := calls s @ [AuthGetUser,
                                    ConversationsInsert uid (take 50 (trim (input s)))],
               selectedConversation := Some (conv_id newConv),
               conversations := newConv # conversations s\<rparr>"
  have e: "ensureConversation env s p = (Inr (conv_id newConv), ?p1)"
    using assms(1,3,4) p by (simp add: ensureConversation_def createForSend_def Let_def)
  have "calls (sendMessage env s) =
         calls s @ [AuthGetUser, ConversationsInsert uid (take 50 (trim (input s))),
                    FunctionsInvoke (trim (input s)) (conv_id newConv) (history env s)]
     \<and> conversations (sendMessage env s) = newConv # conversations s
     \<and> selectedConversation (sendMessage env s) = Some (conv_id newConv)"
    using assms(2) e
    by (cases "invoke_assistant env (trim (input s)) (conv_id newConv) (history env s)")
       (simp_all add: sendMessage_def sendMessage_try_def sendMessage_catch_def Let_def)
  then show ?thesis using e by simp
qed

theorem create_on_send_witness:
  "selectedConversation fresh_session = None
   \<and> auth_user ok_env = Some (js ''u1'')
   \<and> conversations (sendMessage ok_env fresh_session) =
       [\<lparr>conv_id = js ''N'', conv_title = js ''hello'', conv_updated_at = js ''10:05''\<rparr>]
   \<and> selectedConversation (sendMessage ok_env fresh_session) = Some (js ''N'')
   \<and> calls (sendMessage ok_env fresh_session) =
       [AuthGetUser, ConversationsInsert (js ''u1'') (js ''hello''),
        FunctionsInvoke (js ''hello'') (js ''N'') []]
   \<and> selectedConversation long_session = None
   \<and> conversations (sendMessage ok_env long_session) =
       [\<lparr>conv_id = js ''N'',
         conv_title = js ''Please cut the wedding footage into a two minute h'',
         conv_updated_at = js ''10:05''\<rparr>]"
proof -
  have la: "selectedConversation long_session = None"
    "conversations long_session = []"
    by (simp_all add: fixture_defs example_defs)
  have lt: "trim (input long_session) =
      js ''Please cut the wedding footage into a two minute highlight reel for Friday''"
    by (simp add: fixture_defs example_defs) (simp add: string_eval)
  have lg: "sendMessage_begin ok_env long_session =
     Some (long_session\<lparr>input := [], loading := True,
                         messages := messages long_session @
                           [optimistic ok_env long_session]\<rparr>)"
    using lt by (simp add: sendMessage_begin_def fixture_defs example_defs)
                (simp add: js_def)
  have li: "insert_conversation ok_env (js ''u1'') (take 50 (trim (input long_session))) =
     Inr \<lparr>conv_id = js ''N'',
          conv_title = js ''Please cut the wedding footage into a two minute h'',
          conv_updated_at = js ''10:05''\<rparr>"
    using lt by (simp add: ok_env_def) (simp add: js_def)
  have a: "selectedConversation fresh_session = None"
    by (simp add: fixture_defs example_defs)
  have b: "auth_user ok_env = Some (js ''u1'')"
    by (simp add: ok_env_def)
  have h: "history ok_env fresh_session = []"
    by (simp add: history_def fixture_defs example_defs)
  have c: "conversations fresh_session = []" "calls fresh_session = []"
    "trim (input fresh_session) = js ''hello''"
    by (simp_all add: fixture_defs example_defs trim_fresh)
  have g: "sendMessage_begin ok_env fresh_session =
     Some (fresh_session\<lparr>input := [], loading := True,
                          messages := messages fresh_session @
                            [optimistic ok_env fresh_session]\<rparr>)"
    using c(3) by (simp add: sendMessage_begin_def fixture_defs example_defs)
                  (simp add: js_def)
  have i: "insert_conversation ok_env (js ''u1'') (take 50 (trim (input fresh_session))) =
     Inr \<lparr>conv_id = js ''N'', conv_title = js ''hello'', conv_updated_at = js ''10:05''\<rparr>"
    using c(3) by (simp add: ok_env_def) (simp add: js_def)
  have "conversations (sendMessage ok_env long_session) =
       [\<lparr>conv_id = js ''N'',
         conv_title = js ''Please cut the wedding footage into a two minute h'',
         conv_updated_at = js ''10:05''\<rparr>]"
    using create_on_send [OF la(1) lg b li] la(2) by simp
  then show ?thesis
    using create_on_send [OF a g b i] a b h c la(1) by (simp add: js_def)
qed

text \<open>
  The claim as stated fails on a text that is not empty but whitespace-only: the send
  is rejected at the guard, no conversation is requested, listed or selected.
\<close>

theorem create_on_send_counterexample:
  "selectedConversation fresh_blank_session = None
   \<and> input fresh_blank_session \<noteq> []
   \<and> conversations (sendMessage ok_env fresh_blank_session) = []
   \<and> selectedConversation (sendMessage ok_env fresh_blank_session) = None
   \<and> calls (sendMessage ok_env fresh_blank_session) = []"
proof -
  have "sendMessage_begin ok_env fresh_blank_session = None"
    by (simp add: sendMessage_begin_None_iff fixture_defs example_defs trim_blank1)
  then have "sendMessage ok_env fresh_blank_session = fresh_blank_session"
    by (rule sendMessage_rejected)
  then show ?thesis
    by (simp add: fixture_defs example_defs) (simp add: js_def)
qed

section \<open>Deleting a conversation\<close>

text \<open>
  Claim C7. When the backend deletes the conversation record without error, the
  conversation list loses exactly the entries with that identifier. If the identifier
  is the selected one, the selection is cleared and the message list emptied; if it is
  not, selection and message list are as before.
\<close>

theorem deleteConversation_success:
  assumes "delete_conversation env cid = None"
  shows "conversations (deleteConversation env cid s) =
           filter (\<lambda>c. conv_id c \<noteq> cid) (conversations s)
     \<and> cid \<notin> conv_id ` set (conversations (deleteConversation env cid s))
     \<and> (selectedConversation s = Some cid \<longrightarrow>
          selectedConversation (deleteConversation env cid s) = None
          \<and> messages (deleteConversation env cid s) = [])
     \<and> (selectedConversation s \<noteq> Some cid \<longrightarrow>
          selectedConversation (deleteConversation env cid s) = selectedConversation s
          \<and> messages (deleteConversation env cid s) = messages s)"
  using assms by (auto simp: deleteConversation_def Let_def)

theorem deleteConversation_success_witness:
  "delete_conversation ok_env (js ''B'') = None
   \<and> selectedConversation two_conv_session = Some (js ''B'')
   \<and> conversations (deleteConversation ok_env (js ''B'') two_conv_session) = [conv_A]
   \<and> selectedConversation (deleteConversation ok_env (js ''B'') two_conv_session) = None
   \<and> messages (deleteConversation ok_env (js ''B'') two_conv_session) = []
   \<and> delete_conversation ok_env (js ''A'') = None
   \<and> selectedConversation two_conv_session \<noteq> Some (js ''A'')
   \<and> conversations (deleteConversation ok_env (js ''A'') two_conv_session) = [conv_B]
   \<and> selectedConversation (deleteConversation ok_env (js ''A'') two_conv_session)
       = Some (js ''B'')
   \<and> messages (deleteConversation ok_env (js ''A'') two_conv_session)
       = messages two_conv_session"
proof -
  have d: "delete_conversation ok_env (js ''B'') = None"
    "delete_conversation ok_env (js ''A'') = None"
    by (simp_all add: ok_env_def)
  have s: "selectedConversation two_conv_session = Some (js ''B'')"
    "conversations two_conv_session = [conv_A, conv_B]"
    by (simp_all add: fixture_defs example_defs)
  have n: "js ''A'' \<noteq> js ''B''" "conv_id conv_A = js ''A''" "conv_id conv_B = js ''B''"
    by (simp_all add: js_def example_defs)
  show ?thesis
    using deleteConversation_success [OF d(1), of two_conv_session]
      deleteConversation_success [OF d(2), of two_conv_session] d s n
    by auto
qed

section \<open>Loading the conversations\<close>

text \<open>When the read fails, the state is as before but for the console line and the
  loading indicator.\<close>

lemma loadConversations_error_frame:
  assumes "auth_user env = Some uid" and "select_conversations env uid = Inl e"
  shows "loadConversations env s =
           s\<lparr>calls := calls s @ [AuthGetUser, ConversationsSelect uid],
             console := console s @ [(js ''Error loading conversations:'', e)],
             loadingConversations := False\<rparr>"
  using assms by (simp add: loadConversations_def Let_def)

text \<open>
  Claim C8, as amended. For every signed-in user and every state, when the read of
  the conversations fails, the operation fails silently: the error is written to the
  console, no notification is raised, and the conversation list is left as it was,
  as are the selection and the message list; the loading indicator is cleared. On the
  first load after mount, where the list is still the initial empty one, the list
  shown is therefore empty. The list is not emptied on this path.
\<close>

theorem loadConversations_error:
  assumes "auth_user env = Some uid" and "select_conversations env uid = Inl e"
  shows "conversations (loadConversations env s) = conversations s
     \<and> selectedConversation (loadConversations env s) = selectedConversation s
     \<and> messages (loadConversations env s) = messages s
     \<and> toasts (loadConversations env s) = toasts s
     \<and> console (loadConversations env s) =
         console s @ [(js ''Error loading conversations:'', e)]
     \<and> \<not> loadingConversations (loadConversations env s)
     \<and> conversations (loadConversations env initial_session) = []
     \<and> toasts (loadConversations env initial_session) = []"
  using loadConversations_error_frame [OF assms, of s]
    loadConversations_error_frame [OF assms, of initial_session]
  by (simp add: initial_session_def)

theorem loadConversations_error_witness:
  "auth_user failing_env = Some (js ''u1'')
   \<and> select_conversations failing_env (js ''u1'') = Inl (JsError (Some (js ''offline'')))
   \<and> conversations (loadConversations failing_env initial_session) = []
   \<and> toasts (loadConversations failing_env initial_session) = []
   \<and> console (loadConversations failing_env initial_session) =
       [(js ''Error loading conversations:'', JsError (Some (js ''offline'')))]
   \<and> conversations (loadConversations failing_env two_conv_session)
       = conversations two_conv_session
   \<and> toasts (loadConversations failing_env two_conv_session) = toasts two_conv_session"
proof -
  have a: "auth_user failing_env = Some (js ''u1'')"
    by (simp add: failing_env_def ok_env_def)
  have b: "select_conversations failing_env (js ''u1'') = Inl (JsError (Some (js ''offline'')))"
    by (simp add: failing_env_def)
  have c: "console initial_session = []"
    by (simp add: initial_session_def)
  show ?thesis
    using loadConversations_error [OF a b, of initial_session]
      loadConversations_error [OF a b, of two_conv_session] a b c
    by simp
qed

text \<open>
  The claim as stated fails on a state whose conversation list is not empty: with
  \<open>A\<close> and \<open>B\<close> listed and the read failing, the list shown is still \<open>A\<close>, \<open>B\<close>.
\<close>

theorem loadConversations_error_counterexample:
  "auth_user failing_env = Some (js ''u1'')
   \<and> select_conversations failing_env (js ''u1'') = Inl (JsError (Some (js ''offline'')))
   \<and> conversations (loadConversations failing_env two_conv_session) = [conv_A, conv_B]
   \<and> conversations (loadConversations failing_env two_conv_session) \<noteq> []"
proof -
  have a: "auth_user failing_env = Some (js ''u1'')"
    by (simp add: failing_env_def ok_env_def)
  have b: "select_conversations failing_env (js ''u1'') = Inl (JsError (Some (js ''offline'')))"
    by (simp add: failing_env_def)
  have "conversations two_conv_session = [conv_A, conv_B]"
    by (simp add: two_conv_session_def)
  then show ?thesis
    using loadConversations_error_frame [OF a b, of two_conv_session] a b by simp
qed

text \<open>
  Claim C9, as amended. When the read of the conversations returns a non-empty list
  and no conversation is selected, the head of the list is selected and a read of its
  messages is issued, without any user action. If that read succeeds, its result
  becomes the in-memory message list (the empty list when it returns no data); if it
  fails, the message list is left as it was, the error is written to the console and
  nothing is notified.
\<close>

theorem autoselect_on_load:
  assumes "auth_user env = Some uid"
    and "select_conversations env uid = Inr (Some (c # cs))"
    and "selectedConversation s = None"
  shows "conversations (loadConversations env s) = c # cs
     \<and> selectedConversation (loadConversations env s) = Some (conv_id c)
     \<and> calls (loadConversations env s) =
         calls s @ [AuthGetUser, ConversationsSelect uid, MessagesSelect (conv_id c)]
     \<and> (\<forall>ms. select_messages env (conv_id c) = Inr (Some ms) \<longrightarrow>
            messages (loadConversations env s) = ms)
     \<and> (select_messages env (conv_id c) = Inr None \<longrightarrow>
            messages (loadConversations env s) = [])
     \<and> (\<forall>e. select_messages env (conv_id c) = Inl e \<longrightarrow>
            messages (loadConversations env s) = messages s
            \<and> console (loadConversations env s) =
                console s @ [(js ''Error loading messages:'', e)]
            \<and> toasts (loadConversations env s) = toasts s)"
  using assms
  by (cases "select_messages env (conv_id c)")
     (auto simp: loadConversations_def loadMessages_def falsy_def Let_def split: option.splits)

theorem autoselect_on_load_witness:
  "auth_user ok_env = Some (js ''u1'')
   \<and> select_conversations ok_env (js ''u1'') = Inr (Some [conv_B])
   \<and> selectedConversation initial_session = None
   \<and> select_messages ok_env (conv_id conv_B) = Inr (Some [])
   \<and> selectedConversation (loadConversations ok_env initial_session) = Some (conv_id conv_B)
   \<and> messages (loadConversations ok_env initial_session) = []"
proof -
  have a: "auth_user ok_env = Some (js ''u1'')" by (simp add: ok_env_def)
  have b: "select_conversations ok_env (js ''u1'') = Inr (Some [conv_B])"
    by (simp add: ok_env_def)
  have c: "selectedConversation initial_session = None" by (simp add: initial_session_def)
  have d: "select_messages ok_env (conv_id conv_B) = Inr (Some [])" by (simp add: ok_env_def)
  show ?thesis using autoselect_on_load [OF a b c] a b c d by simp
qed

text \<open>
  The claim as stated fails when the conversations can be read and the messages
  cannot: the head is selected, but no messages are loaded; the list is not written
  and the failure shows on the console only.
\<close>

theorem autoselect_on_load_counterexample:
  "auth_user messages_down_env = Some (js ''u1'')
   \<and> select_conversations messages_down_env (js ''u1'') = Inr (Some [conv_B])
   \<and> selectedConversation initial_session = None
   \<and> selectedConversation (loadConversations messages_down_env initial_session)
       = Some (conv_id conv_B)
   \<and> select_messages messages_down_env (conv_id conv_B) = Inl (JsError (Some (js ''offline'')))
   \<and> messages (loadConversations messages_down_env initial_session)
       = messages initial_session
   \<and> console (loadConversations messages_down_env initial_session) =
       [(js ''Error loading messages:'', JsError (Some (js ''offline'')))]"
  by (simp add: loadConversations_def loadMessages_def falsy_def Let_def
        fixture_defs example_defs)

section \<open>The first match of the pattern\<close>

text \<open>
  What \<open>regex_search\<close> finds, in terms of blocks: the leftmost block and, at that
  start, the shortest one; and nothing exactly when there is no block.
\<close>

lemma ACTION_DATA_length: "length ACTION_DATA = 15"
  by (simp add: ACTION_DATA_def js_def)























end
